theory Spec2Isabelle
  imports Complex_Main "HOL-Library.Word"
begin

section \<open>Values handled by \<open>cnstd/cn_std.py\<close>\<close>

text \<open>
  An image buffer: rows of pixels of three channel values in \<open>[0, 255]\<close>
  (\<open>shape: (height, width, 3)\<close>, \<open>dtype=uint8\<close> in the docstring of \<open>detect\<close>).
\<close>

type_synonym image = "8 word list list list"

text \<open>
  A Python \<open>float\<close>: a finite value, an infinity or NaN. A finite float is kept as the real
  number it denotes. \<open>fless a b\<close> is \<open>a < b\<close> and \<open>fge a b\<close> is \<open>a >= b\<close>: both are false as soon
  as one side is NaN, so \<open>a >= b\<close> is not the negation of \<open>a < b\<close>. \<open>fsub\<close> is \<open>a - b\<close>, the
  difference of two finite floats taken without rounding.
\<close>

datatype pyfloat = Fin real | PosInf | NegInf | NaN




text \<open>
  The Python values that can reach \<open>CnStd.detect\<close> as \<open>img_list\<close>: the four accepted
  single-image representations, the two sequence types, and values of other types.
\<close>

datatype pyval =
    PStr string
  | PPath string
  | PImage image
  | PNdarray image
  | PList "pyval list"
  | PTuple "pyval list"
  | PNone
  | PInt int
  | PFloat pyfloat
  | PDict "(string \<times> pyval) list"

text \<open>\<open>type(v)\<close>, as far as \<open>isinstance\<close> and the error message need it.\<close>

datatype pytype =
  T_str | T_Path | T_Image | T_ndarray | T_list | T_tuple | T_NoneType | T_int | T_float | T_dict

fun type_of :: "pyval \<Rightarrow> pytype" where
  "type_of (PStr _) = T_str"
| "type_of (PPath _) = T_Path"
| "type_of (PImage _) = T_Image"
| "type_of (PNdarray _) = T_ndarray"
| "type_of (PList _) = T_list"
| "type_of (PTuple _) = T_tuple"
| "type_of PNone = T_NoneType"
| "type_of (PInt _) = T_int"
| "type_of (PFloat _) = T_float"
| "type_of (PDict _) = T_dict"

definition isinstance :: "pyval \<Rightarrow> pytype list \<Rightarrow> bool" where
  "isinstance v ts = (type_of v \<in> set ts)"

text \<open>
  Exceptions. \<open>TypeError t\<close> stands for
  \<open>TypeError('type %s is not supported now' % str(type(img_list)))\<close> with \<open>t = type(img_list)\<close>;
  \<open>NotImplementedError (n, b)\<close> for
  \<open>NotImplementedError('%s is not supported currently' % ((model_name, model_backend),))\<close>.
  \<open>IndexError\<close> is what \<open>outs[0]\<close> raises on an empty list and \<open>KeyError\<close> what indexing
  a dict by a missing key raises; \<open>AttributeError\<close> is what reading \<open>self.angle_clf\<close> raises when
  \<open>__init__\<close> never assigned it. \<open>Raised msg\<close> is any exception coming out of a collaborator
  (the detection model, the angle classifier, their constructors). \<open>InvalidConfiguration\<close> and
  \<open>InvalidInput i\<close> are the two errors the specification names for the detection pipeline: a
  resize target that is not a positive multiple of 32, and an unreadable image at position \<open>i\<close>
  of the input list.
\<close>

datatype error =
    TypeError pytype
  | NotImplementedError "string \<times> string"
  | IndexError
  | KeyError
  | AttributeError
  | Raised string
  | InvalidConfiguration
  | InvalidInput nat

subsection \<open>Detection results\<close>

text \<open>
  \<open>'box'\<close>: 4 elements \<open>[xmin, ymin, xmax, ymax]\<close> (\<open>rotated_bbox == False\<close>) or
  5 elements \<open>[x, y, w, h, angle]\<close> (\<open>rotated_bbox == True\<close>), as the docstring of \<open>detect\<close>
  describes them.
\<close>

datatype region =
    AxisAligned pyfloat pyfloat pyfloat pyfloat
  | Rotated pyfloat pyfloat pyfloat pyfloat pyfloat

text \<open>One entry of \<open>'detected_texts'\<close>: the dict with keys \<open>'box'\<close>, \<open>'score'\<close>, \<open>'cropped_img'\<close>.\<close>

record info =
  box :: region
  score :: pyfloat
  cropped_img :: image

text \<open>The result for one image: the dict with keys \<open>'rotated_angle'\<close> and \<open>'detected_texts'\<close>.\<close>

record out =
  rotated_angle :: pyfloat
  detected_texts :: "info list"

text \<open>What \<open>detect\<close> returns: \<open>outs[0]\<close> (one dict) or \<open>outs\<close> (a list of dicts).\<close>

datatype result = Single out | Many "out list"

subsection \<open>Collaborators\<close>

text \<open>
  The keyword arguments \<open>detect\<close> passes on to \<open>self.det_model.detect\<close>, with the defaults of
  the signature of \<open>CnStd.detect\<close>.
\<close>

record detect_args =
  resized_shape :: "int \<times> int"
  preserve_aspect_ratio :: bool
  min_box_size :: int
  box_score_thresh :: pyfloat
  batch_size :: int

definition default_detect_args :: detect_args where
  "default_detect_args =
     \<lparr>resized_shape = (768, 768), preserve_aspect_ratio = True, min_box_size = 8,
      box_score_thresh = Fin (3 / 10), batch_size = 20\<rparr>"

text \<open>
  \<open>Detector\<close>, \<open>PPDetector\<close> and \<open>AngleClassifier\<close> are imported by \<open>cn_std.py\<close> from modules
  that are not part of the file; an instance is the function its call computes.
  A detection model maps \<open>img_list\<close> (the list or tuple itself) and the keyword arguments to
  a list of per-image results or raises; the angle classifier maps a list of crops to a pair
  (crops, second component) or raises.
\<close>

type_synonym detector = "pyval \<Rightarrow> detect_args \<Rightarrow> error + out list"
type_synonym classifier = "image list \<Rightarrow> error + (image list \<times> pyval)"

text \<open>The keyword arguments \<open>__init__\<close> passes to \<open>det_cls(...)\<close>.\<close>

record det_kwargs =
  model_name :: string
  auto_rotate_whole_image :: bool
  rotated_bbox :: bool
  "context" :: string
  model_fp :: "string option"
  model_backend :: string
  root :: pyval

text \<open>
  What \<open>cn_std.py\<close> imports: \<open>AVAILABLE_MODELS\<close> (its \<open>get_space\<close> and \<open>CNSTD_SPACE\<close>),
  \<open>PP_SPACE\<close> and the three classes. They are parameters of the model.
\<close>

record module_env =
  get_space :: "string \<Rightarrow> string \<Rightarrow> pyval"
  CNSTD_SPACE :: pyval
  PP_SPACE :: pyval
  Detector :: "det_kwargs \<Rightarrow> error + detector"
  PPDetector :: "det_kwargs \<Rightarrow> error + detector"
  AngleClassifier :: "(string \<times> pyval) list \<Rightarrow> error + classifier"

text \<open>The calls into collaborators, in the order they happen.\<close>

datatype event =
    Call_Detector det_kwargs
  | Call_PPDetector det_kwargs
  | Call_AngleClassifier "(string \<times> pyval) list"
  | Call_det_model_detect pyval detect_args
  | Call_angle_clf "image list"

section \<open>\<open>class CnStd\<close>\<close>

text \<open>
  The attributes \<open>__init__\<close> assigns. \<open>angle_clf\<close> is assigned only under
  \<open>if self.use_angle_clf\<close>: \<open>None\<close> is the attribute not being there.
\<close>

record cnstd =
  space :: pyval
  det_model :: detector
  use_angle_clf :: bool
  angle_clf :: "classifier option"

datatype det_cls = Cls_Detector | Cls_PPDetector

text \<open>\<open>d[key] = value\<close> on a dict kept as an association list.\<close>

fun dict_set :: "(string \<times> pyval) list \<Rightarrow> string \<Rightarrow> pyval \<Rightarrow> (string \<times> pyval) list" where
  "dict_set [] k v = [(k, v)]"
| "dict_set ((k', v') # d) k v = (if k' = k then (k, v) # d else (k', v') # dict_set d k v)"

text \<open>
  \<open>CnStd.__init__\<close> (lines 76-100). \<open>kw\<close> holds the arguments that go on to \<open>det_cls\<close>;
  \<open>kwargs\<close> is accepted and not read.
\<close>

definition init ::
  "module_env \<Rightarrow> det_kwargs \<Rightarrow> bool \<Rightarrow> (string \<times> pyval) list option \<Rightarrow> (string \<times> pyval) list
     \<Rightarrow> event list \<times> (error + cnstd)" where
  "init env kw use_angle_clf' angle_clf_configs kwargs =
     (let space' = get_space env (model_name kw) (model_backend kw) in
      case (if space' = CNSTD_SPACE env then Inr Cls_Detector
            else if space' = PP_SPACE env then Inr Cls_PPDetector
            else Inl (NotImplementedError (model_name kw, model_backend kw))) of
        Inl e \<Rightarrow> ([], Inl e)
      | Inr cls \<Rightarrow>
          (let ev1 = (case cls of Cls_Detector \<Rightarrow> Call_Detector kw | Cls_PPDetector \<Rightarrow> Call_PPDetector kw) in
           case (case cls of Cls_Detector \<Rightarrow> Detector env kw | Cls_PPDetector \<Rightarrow> PPDetector env kw) of
             Inl e \<Rightarrow> ([ev1], Inl e)
           | Inr dm \<Rightarrow>
               if use_angle_clf' then
                 (let cfg0 = (case angle_clf_configs of None \<Rightarrow> [] | Some [] \<Rightarrow> [] | Some d \<Rightarrow> d);
                      cfg = dict_set cfg0 ''root'' (root kw)
                  in case AngleClassifier env cfg of
                       Inl e \<Rightarrow> ([ev1, Call_AngleClassifier cfg], Inl e)
                     | Inr clf \<Rightarrow>
                         ([ev1, Call_AngleClassifier cfg],
                          Inr \<lparr>space = space', det_model = dm, use_angle_clf = True,
                               angle_clf = Some clf\<rparr>))
               else
                 ([ev1],
                  Inr \<lparr>space = space', det_model = dm, use_angle_clf = False, angle_clf = None\<rparr>)))"

section \<open>\<open>CnStd.detect\<close>\<close>

text \<open>
  Lines 156-163: a list or tuple passes as it is; a \<open>str\<close>, \<open>Path\<close>, \<open>Image.Image\<close> or
  \<open>np.ndarray\<close> is wrapped in a one-element list and \<open>single\<close> is set; anything else raises.
  The result is the pair (\<open>img_list\<close>, \<open>single\<close>).
\<close>

definition normalize_input :: "pyval \<Rightarrow> error + (pyval \<times> bool)" where
  "normalize_input img_list =
     (if isinstance img_list [T_list, T_tuple] then Inr (img_list, False)
      else if isinstance img_list [T_str, T_Path, T_Image, T_ndarray] then Inr (PList [img_list], True)
      else Inl (TypeError (type_of img_list)))"

text \<open>
  Line 178-179: \<open>for info, crop_img in zip(out['detected_texts'], crop_img_list):
  info['cropped_img'] = crop_img\<close>. \<open>zip\<close> stops at the shorter sequence, so entries beyond the
  returned crops keep their crop, and extra crops are dropped.
\<close>

fun write_back :: "info list \<Rightarrow> image list \<Rightarrow> info list" where
  "write_back [] crops = []"
| "write_back (i # infos) [] = i # infos"
| "write_back (i # infos) (c # crops) = i\<lparr>cropped_img := c\<rparr> # write_back infos crops"

text \<open>
  Lines 175-179, the loop \<open>for out in outs\<close>: the crops of one image are collected,
  \<open>self.angle_clf\<close> is read and called on them, and the returned crops are written back.
  An exception ends the loop and the call. The dicts of \<open>outs\<close> are updated in place; here
  each entry is a value of its own, as a detection model that builds one dict per box gives them.
\<close>

fun rectify_outs :: "classifier option \<Rightarrow> out list \<Rightarrow> event list \<times> (error + out list)" where
  "rectify_outs clf_attr [] = ([], Inr [])"
| "rectify_outs clf_attr (out # outs) =
     (let crop_img_list = map cropped_img (detected_texts out) in
      case clf_attr of
        None \<Rightarrow> ([], Inl AttributeError)
      | Some clf \<Rightarrow>
          (case clf crop_img_list of
             Inl e \<Rightarrow> ([Call_angle_clf crop_img_list], Inl e)
           | Inr (crop_img_list', _) \<Rightarrow>
               (let out' = out\<lparr>detected_texts := write_back (detected_texts out) crop_img_list'\<rparr> in
                case rectify_outs clf_attr outs of
                  (evs, Inl e) \<Rightarrow> (Call_angle_clf crop_img_list # evs, Inl e)
                | (evs, Inr outs') \<Rightarrow> (Call_angle_clf crop_img_list # evs, Inr (out' # outs')))))"

text \<open>Line 181: \<open>return outs[0] if single else outs\<close>.\<close>

definition unwrap :: "bool \<Rightarrow> out list \<Rightarrow> error + result" where
  "unwrap single outs =
     (if single then (case outs of [] \<Rightarrow> Inl IndexError | out0 # _ \<Rightarrow> Inr (Single out0))
      else Inr (Many outs))"

text \<open>
  \<open>CnStd.detect\<close> (lines 156-181). The result is the list of collaborator calls made and
  the returned value or the exception raised. \<open>kwargs\<close> is the dict of extra keyword arguments.
\<close>

definition detect ::
  "cnstd \<Rightarrow> pyval \<Rightarrow> detect_args \<Rightarrow> (string \<times> pyval) list \<Rightarrow> event list \<times> (error + result)" where
  "detect self img_list args kwargs =
     (case normalize_input img_list of
        Inl e \<Rightarrow> ([], Inl e)
      | Inr (img_list', single) \<Rightarrow>
          (case det_model self img_list' args of
             Inl e \<Rightarrow> ([Call_det_model_detect img_list' args], Inl e)
           | Inr outs \<Rightarrow>
               if use_angle_clf self then
                 (case rectify_outs (angle_clf self) outs of
                    (evs, Inl e) \<Rightarrow> (Call_det_model_detect img_list' args # evs, Inl e)
                  | (evs, Inr outs') \<Rightarrow>
                      (Call_det_model_detect img_list' args # evs, unwrap single outs'))
               else ([Call_det_model_detect img_list' args], unwrap single outs)))"

section \<open>The detection pipeline behind \<open>self.det_model\<close>\<close>






text \<open>
  Modelled from the spec: \<open>BatchDetectionPipeline.detect\<close> (section 4.4), one result per
  input image in the same order, the whole call failing on the first image that fails.
  What is done for the image at one position is the parameter \<open>per_image\<close>. Grouping the
  images into chunks of at most \<open>batch_size\<close> decides how many calls the inference backend
  gets and leaves the result of each image what it is (section 8, batch order preservation).
\<close>

fun detect_images :: "(nat \<Rightarrow> pyval \<Rightarrow> error + out) \<Rightarrow> nat \<Rightarrow> pyval list \<Rightarrow> error + out list" where
  "detect_images f i [] = Inr []"
| "detect_images f i (x # xs) =
     (case f i x of
        Inl e \<Rightarrow> Inl e
      | Inr out \<Rightarrow>
          (case detect_images f (Suc i) xs of
             Inl e \<Rightarrow> Inl e
           | Inr outs \<Rightarrow> Inr (out # outs)))"

definition pipeline_detect :: "(detect_args \<Rightarrow> nat \<Rightarrow> pyval \<Rightarrow> error + out) \<Rightarrow> detector" where
  "pipeline_detect per_image img_list args =
     (case img_list of
        PList xs \<Rightarrow> detect_images (per_image args) 0 xs
      | PTuple xs \<Rightarrow> detect_images (per_image args) 0 xs
      | _ \<Rightarrow> Inl (Raised ''not a sequence of images''))"

section \<open>Reading the results\<close>

text \<open>
  The Python expression \<open>r[0]\<close> on a value \<open>r\<close> returned by \<open>detect\<close>: the first element of
  a list (\<open>IndexError\<close> when it is empty); a result dict has no key \<open>0\<close>.
\<close>

definition getitem0 :: "result \<Rightarrow> error + result" where
  "getitem0 r = (case r of Many [] \<Rightarrow> Inl IndexError | Many (out0 # _) \<Rightarrow> Inr (Single out0)
                 | Single _ \<Rightarrow> Inl KeyError)"


fun elements :: "pyval \<Rightarrow> pyval list" where
  "elements (PList xs) = xs"
| "elements (PTuple xs) = xs"
| "elements _ = []"

text \<open>The arguments of the calls of \<open>self.angle_clf\<close> among the calls made, in order.\<close>

fun angle_clf_calls :: "event list \<Rightarrow> image list list" where
  "angle_clf_calls [] = []"
| "angle_clf_calls (Call_angle_clf crops # evs) = crops # angle_clf_calls evs"
| "angle_clf_calls (_ # evs) = angle_clf_calls evs"

section \<open>A concrete instance\<close>

text \<open>
  A detection model that reports the same two boxes for every readable image and raises on
  anything else, and an angle classifier that turns every crop by 180 degrees.
\<close>

definition crop_a :: image where "crop_a = [[[1, 2, 3], [4, 5, 6]]]"
definition crop_b :: image where "crop_b = [[[7, 8, 9]], [[10, 11, 12]]]"

definition rot180 :: "image \<Rightarrow> image" where
  "rot180 img = rev (map rev img)"

definition example_clf :: classifier where
  "example_clf crops = Inr (map rot180 crops, PList [])"

definition example_out :: out where
  "example_out =
     \<lparr>rotated_angle = Fin 0,
      detected_texts =
        [\<lparr>box = Rotated (Fin 50) (Fin 20) (Fin 40) (Fin 12) (Fin 0), score = Fin (9 / 10), cropped_img = crop_a\<rparr>,
         \<lparr>box = Rotated (Fin 30) (Fin 80) (Fin 12) (Fin 30) (Fin (-90)), score = Fin (1 / 2), cropped_img = crop_b\<rparr>]\<rparr>"

definition example_out_rectified :: out where
  "example_out_rectified =
     \<lparr>rotated_angle = Fin 0,
      detected_texts =
        [\<lparr>box = Rotated (Fin 50) (Fin 20) (Fin 40) (Fin 12) (Fin 0), score = Fin (9 / 10), cropped_img = [[[4, 5, 6], [1, 2, 3]]]\<rparr>,
         \<lparr>box = Rotated (Fin 30) (Fin 80) (Fin 12) (Fin 30) (Fin (-90)), score = Fin (1 / 2), cropped_img = [[[10, 11, 12]], [[7, 8, 9]]]\<rparr>]\<rparr>"

definition example_det :: detector where
  "example_det img_list args =
     (case img_list of
        PList xs \<Rightarrow>
          if list_all (\<lambda>x. isinstance x [T_str, T_Path, T_Image, T_ndarray]) xs
          then Inr (map (\<lambda>_. example_out) xs) else Inl (Raised ''cannot read image'')
      | PTuple xs \<Rightarrow>
          if list_all (\<lambda>x. isinstance x [T_str, T_Path, T_Image, T_ndarray]) xs
          then Inr (map (\<lambda>_. example_out) xs) else Inl (Raised ''cannot read image'')
      | _ \<Rightarrow> Inl (Raised ''not a sequence''))"

definition example_self :: cnstd where
  "example_self =
     \<lparr>space = PStr ''__cnstd__'', det_model = example_det, use_angle_clf = False, angle_clf = None\<rparr>"

definition example_self_clf :: cnstd where
  "example_self_clf =
     \<lparr>space = PStr ''__cnstd__'', det_model = example_det, use_angle_clf = True,
      angle_clf = Some example_clf\<rparr>"

definition example_kw :: det_kwargs where
  "example_kw =
     \<lparr>model_name = ''db_shufflenet_v2_small'', auto_rotate_whole_image = False, rotated_bbox = True,
      context = ''cpu'', model_fp = None, model_backend = ''pytorch'', root = PStr ''~/.cnstd''\<rparr>"

definition example_env :: module_env where
  "example_env =
     \<lparr>get_space = (\<lambda>name backend.
          if (name, backend) = (''db_shufflenet_v2_small'', ''pytorch'') then PStr ''__cnstd__''
          else if (name, backend) = (''ch_PP-OCRv3_det'', ''onnx'') then PStr ''__paddleocr__''
          else PNone),
      CNSTD_SPACE = PStr ''__cnstd__'',
      PP_SPACE = PStr ''__paddleocr__'',
      Detector = (\<lambda>kw. Inr example_det),
      PPDetector = (\<lambda>kw. Inr example_det),
      AngleClassifier = (\<lambda>cfg. Inr example_clf)\<rparr>"

text \<open>
  A detection model that is the pipeline over a per-image step of its own: for a path the
  two boxes above, for an array or an image object one box around the whole image with the
  image as its crop.
\<close>

definition whole_image :: "image \<Rightarrow> region" where
  "whole_image img =
     AxisAligned (Fin 0) (Fin 0) (Fin (real (if img = [] then 0 else length (hd img))))
       (Fin (real (length img)))"

definition example_per_image :: "detect_args \<Rightarrow> nat \<Rightarrow> pyval \<Rightarrow> error + out" where
  "example_per_image args i x =
     (case x of
        PStr name \<Rightarrow> Inr example_out
      | PPath name \<Rightarrow> Inr example_out
      | PImage img \<Rightarrow>
          Inr \<lparr>rotated_angle = Fin 0,
               detected_texts = [\<lparr>box = whole_image img, score = Fin (9 / 10), cropped_img = img\<rparr>]\<rparr>
      | PNdarray img \<Rightarrow>
          Inr \<lparr>rotated_angle = Fin 0,
               detected_texts = [\<lparr>box = whole_image img, score = Fin (9 / 10), cropped_img = img\<rparr>]\<rparr>
      | _ \<Rightarrow> Inl (InvalidInput i))"

definition example_self_batch :: cnstd where
  "example_self_batch =
     \<lparr>space = PStr ''__cnstd__'', det_model = pipeline_detect example_per_image,
      use_angle_clf = True, angle_clf = Some example_clf\<rparr>"




lemmas example_defs =
  detect_def normalize_input_def isinstance_def unwrap_def example_self_def example_self_clf_def
  example_det_def example_clf_def example_out_def example_out_rectified_def crop_a_def crop_b_def
  rot180_def getitem0_def Let_def

lemmas batch_example_defs =
  detect_def normalize_input_def isinstance_def unwrap_def example_self_batch_def
  pipeline_detect_def example_per_image_def example_clf_def example_out_def example_out_rectified_def
  whole_image_def rot180_def crop_a_def crop_b_def Let_def


section \<open>Properties of the write-back loop\<close>

lemma length_write_back: "length (write_back infos crops) = length infos"
  by (induction infos crops rule: write_back.induct) simp_all

lemma map_box_write_back: "map box (write_back infos crops) = map box infos"
  by (induction infos crops rule: write_back.induct) simp_all

lemma map_score_write_back: "map score (write_back infos crops) = map score infos"
  by (induction infos crops rule: write_back.induct) simp_all

lemma map_cropped_img_write_back:
  "length crops = length infos \<Longrightarrow> map cropped_img (write_back infos crops) = crops"
  by (induction infos crops rule: write_back.induct) simp_all

lemma write_back_nth:
  "i < length infos \<Longrightarrow> i < length crops \<Longrightarrow>
     write_back infos crops ! i = (infos ! i)\<lparr>cropped_img := crops ! i\<rparr>"
proof (induction infos crops arbitrary: i rule: write_back.induct)
  case (3 x infos c crops)
  then show ?case by (cases i) simp_all
qed simp_all

lemma write_back_nth_beyond:
  "i < length infos \<Longrightarrow> length crops \<le> i \<Longrightarrow> write_back infos crops ! i = infos ! i"
proof (induction infos crops arbitrary: i rule: write_back.induct)
  case (3 x infos c crops)
  then show ?case by (cases i) simp_all
qed simp_all

lemma rectify_outs_Inr:
  "rectify_outs (Some clf) outs = (evs, Inr outs') \<Longrightarrow>
     list_all2 (\<lambda>out out'. \<exists>crops m. clf (map cropped_img (detected_texts out)) = Inr (crops, m) \<and>
        out' = out\<lparr>detected_texts := write_back (detected_texts out) crops\<rparr>) outs outs' \<and>
     evs = map (\<lambda>out. Call_angle_clf (map cropped_img (detected_texts out))) outs"
proof (induction outs arbitrary: evs outs')
  case Nil
  then show ?case by simp
next
  case (Cons out outs)
  then show ?case
    by (auto simp: Let_def split: sum.splits prod.splits)
qed

lemma rectify_outs_succeeds:
  "\<forall>out \<in> set outs. \<exists>crops m. clf (map cropped_img (detected_texts out)) = Inr (crops, m) \<Longrightarrow>
     \<exists>evs outs'. rectify_outs (Some clf) outs = (evs, Inr outs')"
proof (induction outs)
  case Nil
  then show ?case by simp
next
  case (Cons out outs)
  then show ?case
    by (auto simp: Let_def split: sum.splits prod.splits)
qed

lemma rectify_outs_frame:
  "rectify_outs clf_attr outs = (evs, Inr outs') \<Longrightarrow>
     list_all2 (\<lambda>out out'. rotated_angle out' = rotated_angle out \<and>
        map box (detected_texts out') = map box (detected_texts out) \<and>
        map score (detected_texts out') = map score (detected_texts out)) outs outs'"
proof (induction outs arbitrary: evs outs')
  case Nil
  then show ?case by simp
next
  case (Cons out outs)
  then show ?case
    by (auto simp: Let_def map_box_write_back map_score_write_back
          split: option.splits sum.splits prod.splits)
qed

lemma normalize_input_cases:
  "normalize_input v = Inr (v', single) \<Longrightarrow>
     (single \<and> v' = PList [v] \<and> isinstance v [T_str, T_Path, T_Image, T_ndarray]) \<or>
     (\<not> single \<and> v' = v \<and> isinstance v [T_list, T_tuple])"
  by (auto simp: normalize_input_def split: if_splits)

lemma detect_events_nonempty:
  "normalize_input v = Inr (v', single) \<Longrightarrow>
     \<exists>evs. fst (detect self v args kwargs) = Call_det_model_detect v' args # evs"
  by (auto simp: detect_def split: sum.splits prod.splits)

section \<open>Properties of a call on a list or tuple\<close>

lemma rectify_outs_None:
  "rectify_outs None outs = (evs, Inr outs') \<Longrightarrow> outs = []"
  by (cases outs) simp_all

lemma detect_sequence_result:
  assumes "normalize_input img_list = Inr (img_list', False)"
    and "det_model self img_list' args = Inr outs"
    and "snd (detect self img_list args kwargs) = Inr r"
  shows "\<exists>outs'. r = Many outs' \<and> length outs' = length outs \<and>
           (\<not> use_angle_clf self \<longrightarrow> outs' = outs) \<and>
           (use_angle_clf self \<longrightarrow>
              (\<forall>k<length outs. \<exists>clf crops m.
                 angle_clf self = Some clf \<and>
                 clf (map cropped_img (detected_texts (outs ! k))) = Inr (crops, m) \<and>
                 outs' ! k = (outs ! k)\<lparr>detected_texts := write_back (detected_texts (outs ! k)) crops\<rparr>))"
proof (cases "use_angle_clf self")
  case False
  with assms show ?thesis
    by (auto simp: detect_def unwrap_def)
next
  case True
  obtain evs res where rc: "rectify_outs (angle_clf self) outs = (evs, res)"
    by (cases "rectify_outs (angle_clf self) outs") auto
  with assms True obtain outs' where res: "res = Inr outs'" and r: "r = Many outs'"
    by (cases res) (auto simp: detect_def unwrap_def)
  show ?thesis
  proof (cases "angle_clf self")
    case None
    with rc res have "outs = []"
      by (auto dest: rectify_outs_None)
    with rc res r True show ?thesis by simp
  next
    case (Some clf)
    from rectify_outs_Inr [OF rc [unfolded res Some]]
    have rel: "list_all2 (\<lambda>out out'. \<exists>crops m. clf (map cropped_img (detected_texts out)) = Inr (crops, m) \<and>
        out' = out\<lparr>detected_texts := write_back (detected_texts out) crops\<rparr>) outs outs'"
      by simp
    then have len: "length outs' = length outs"
      by (simp add: list_all2_lengthD)
    from rel Some have "\<forall>k<length outs. \<exists>clf crops m.
        angle_clf self = Some clf \<and>
        clf (map cropped_img (detected_texts (outs ! k))) = Inr (crops, m) \<and>
        outs' ! k = (outs ! k)\<lparr>detected_texts := write_back (detected_texts (outs ! k)) crops\<rparr>"
      by (auto dest: list_all2_nthD)
    with r len True show ?thesis by simp
  qed
qed

lemma detect_Inr_det_model:
  assumes "normalize_input img_list = Inr (img_list', single)"
    and "snd (detect self img_list args kwargs) = Inr r"
  shows "\<exists>outs. det_model self img_list' args = Inr outs"
  using assms by (cases "det_model self img_list' args") (auto simp: detect_def)

lemma detect_images_nth:
  "detect_images f i xs = Inr outs \<Longrightarrow>
     length outs = length xs \<and> (\<forall>k<length xs. f (i + k) (xs ! k) = Inr (outs ! k))"
proof (induction xs arbitrary: i outs)
  case Nil
  then show ?case by simp
next
  case (Cons x xs)
  from Cons.prems obtain out outs0 where fx: "f i x = Inr out"
    and rest: "detect_images f (Suc i) xs = Inr outs0" and outs: "outs = out # outs0"
    by (auto split: sum.splits)
  from Cons.IH [OF rest] have len: "length outs0 = length xs"
    and nth: "\<forall>k<length xs. f (Suc i + k) (xs ! k) = Inr (outs0 ! k)"
    by simp_all
  have "f (i + k) ((x # xs) ! k) = Inr (outs ! k)" if "k < length (x # xs)" for k
  proof (cases k)
    case 0
    with fx outs show ?thesis by simp
  next
    case (Suc k')
    with that nth outs show ?thesis by simp
  qed
  with len outs show ?case by simp
qed

lemma pipeline_detect_sequence:
  assumes "pipeline_detect per_image v args = Inr outs"
  shows "length outs = length (elements v) \<and>
         (\<forall>k<length (elements v). per_image args k (elements v ! k) = Inr (outs ! k))"
proof -
  from assms have "detect_images (per_image args) 0 (elements v) = Inr outs"
    by (cases v) (auto simp: pipeline_detect_def)
  from detect_images_nth [OF this] show ?thesis by simp
qed

section \<open>Single image and list of images\<close>

text \<open>
  C1. For a single image (\<open>str\<close>, \<open>Path\<close>, \<open>Image.Image\<close> or \<open>np.ndarray\<close>), \<open>detect(img)\<close>
  makes the same calls as \<open>detect([img])\<close> and returns (or raises) what \<open>detect([img])[0]\<close>
  does. For a list, a returned value is the list of the detection model's results, as many
  and in their order: the results themselves when no angle classifier is used, and with the
  same angle, boxes and scores otherwise. Over the detection pipeline, which gives one result
  per input image in the same order, a returned value is therefore a list as long as the input
  list whose \<open>k\<close>-th element is the result for the \<open>k\<close>-th image.
\<close>

theorem detect_single_list_symmetry:
  "(isinstance img [T_str, T_Path, T_Image, T_ndarray] \<longrightarrow>
      fst (detect self img args kwargs) = fst (detect self (PList [img]) args kwargs) \<and>
      snd (detect self img args kwargs) =
        (case snd (detect self (PList [img]) args kwargs) of Inl e \<Rightarrow> Inl e | Inr r \<Rightarrow> getitem0 r)) \<and>
   (\<forall>outs r. det_model self (PList imgs) args = Inr outs \<and>
       snd (detect self (PList imgs) args kwargs) = Inr r \<longrightarrow>
      (\<exists>outs'. r = Many outs' \<and> length outs' = length outs \<and>
         (\<not> use_angle_clf self \<longrightarrow> outs' = outs) \<and>
         (\<forall>k<length outs.
            rotated_angle (outs' ! k) = rotated_angle (outs ! k) \<and>
            map box (detected_texts (outs' ! k)) = map box (detected_texts (outs ! k)) \<and>
            map score (detected_texts (outs' ! k)) = map score (detected_texts (outs ! k))))) \<and>
   (\<forall>r. det_model self = pipeline_detect per_image \<and>
       snd (detect self (PList imgs) args kwargs) = Inr r \<longrightarrow>
      (\<exists>outs'. r = Many outs' \<and> length outs' = length imgs \<and>
         (\<forall>k<length imgs. \<exists>out.
            per_image args k (imgs ! k) = Inr out \<and>
            (\<not> use_angle_clf self \<longrightarrow> outs' ! k = out) \<and>
            rotated_angle (outs' ! k) = rotated_angle out \<and>
            map box (detected_texts (outs' ! k)) = map box (detected_texts out) \<and>
            map score (detected_texts (outs' ! k)) = map score (detected_texts out))))"
proof -
  have n: "normalize_input (PList xs) = Inr (PList xs, False)" for xs
    by (simp add: normalize_input_def isinstance_def)
  have first: "isinstance img [T_str, T_Path, T_Image, T_ndarray] \<longrightarrow>
      fst (detect self img args kwargs) = fst (detect self (PList [img]) args kwargs) \<and>
      snd (detect self img args kwargs) =
        (case snd (detect self (PList [img]) args kwargs) of Inl e \<Rightarrow> Inl e | Inr r \<Rightarrow> getitem0 r)"
  proof
    assume single: "isinstance img [T_str, T_Path, T_Image, T_ndarray]"
    then have n1: "normalize_input img = Inr (PList [img], True)"
      by (auto simp: normalize_input_def isinstance_def)
    have "fst (detect self img args kwargs) = fst (detect self (PList [img]) args kwargs)"
      by (simp add: detect_def n1 n split: sum.splits prod.splits)
    moreover have "snd (detect self img args kwargs) =
        (case snd (detect self (PList [img]) args kwargs) of Inl e \<Rightarrow> Inl e | Inr r \<Rightarrow> getitem0 r)"
      by (simp add: detect_def n1 n unwrap_def getitem0_def split: sum.splits prod.splits list.splits)
    ultimately show "fst (detect self img args kwargs) = fst (detect self (PList [img]) args kwargs) \<and>
      snd (detect self img args kwargs) =
        (case snd (detect self (PList [img]) args kwargs) of Inl e \<Rightarrow> Inl e | Inr r \<Rightarrow> getitem0 r)"
      by simp
  qed
  have facade: "\<exists>outs'. r = Many outs' \<and> length outs' = length outs \<and>
         (\<not> use_angle_clf self \<longrightarrow> outs' = outs) \<and>
         (\<forall>k<length outs.
            rotated_angle (outs' ! k) = rotated_angle (outs ! k) \<and>
            map box (detected_texts (outs' ! k)) = map box (detected_texts (outs ! k)) \<and>
            map score (detected_texts (outs' ! k)) = map score (detected_texts (outs ! k)))"
    if det: "det_model self (PList imgs) args = Inr outs"
      and ret: "snd (detect self (PList imgs) args kwargs) = Inr r" for outs r
  proof -
    from detect_sequence_result [OF n det ret] obtain outs'
      where r: "r = Many outs'" and len: "length outs' = length outs"
        and noclf: "\<not> use_angle_clf self \<longrightarrow> outs' = outs"
        and clf: "use_angle_clf self \<longrightarrow>
              (\<forall>k<length outs. \<exists>clf crops m.
                 angle_clf self = Some clf \<and>
                 clf (map cropped_img (detected_texts (outs ! k))) = Inr (crops, m) \<and>
                 outs' ! k = (outs ! k)\<lparr>detected_texts := write_back (detected_texts (outs ! k)) crops\<rparr>)"
      by blast
    have "rotated_angle (outs' ! k) = rotated_angle (outs ! k) \<and>
        map box (detected_texts (outs' ! k)) = map box (detected_texts (outs ! k)) \<and>
        map score (detected_texts (outs' ! k)) = map score (detected_texts (outs ! k))"
      if k: "k < length outs" for k
    proof (cases "use_angle_clf self")
      case False
      with noclf show ?thesis by simp
    next
      case True
      with clf k obtain crops
        where "outs' ! k = (outs ! k)\<lparr>detected_texts := write_back (detected_texts (outs ! k)) crops\<rparr>"
        by blast
      then show ?thesis
        by (simp add: map_box_write_back map_score_write_back)
    qed
    with r len noclf show ?thesis by blast
  qed
  have pipeline: "\<exists>outs'. r = Many outs' \<and> length outs' = length imgs \<and>
         (\<forall>k<length imgs. \<exists>out.
            per_image args k (imgs ! k) = Inr out \<and>
            (\<not> use_angle_clf self \<longrightarrow> outs' ! k = out) \<and>
            rotated_angle (outs' ! k) = rotated_angle out \<and>
            map box (detected_texts (outs' ! k)) = map box (detected_texts out) \<and>
            map score (detected_texts (outs' ! k)) = map score (detected_texts out))"
    if pd: "det_model self = pipeline_detect per_image"
      and ret: "snd (detect self (PList imgs) args kwargs) = Inr r" for r
  proof -
    from detect_Inr_det_model [OF n ret] obtain outs
      where det: "det_model self (PList imgs) args = Inr outs" by blast
    with pd have "pipeline_detect per_image (PList imgs) args = Inr outs" by simp
    from pipeline_detect_sequence [OF this]
    have len: "length outs = length imgs"
      and nth: "\<forall>k<length imgs. per_image args k (imgs ! k) = Inr (outs ! k)"
      by simp_all
    from facade [OF det ret] obtain outs'
      where r: "r = Many outs'" and len': "length outs' = length outs"
        and noclf: "\<not> use_angle_clf self \<longrightarrow> outs' = outs"
        and fr: "\<forall>k<length outs.
            rotated_angle (outs' ! k) = rotated_angle (outs ! k) \<and>
            map box (detected_texts (outs' ! k)) = map box (detected_texts (outs ! k)) \<and>
            map score (detected_texts (outs' ! k)) = map score (detected_texts (outs ! k))"
      by blast
    have "\<exists>out. per_image args k (imgs ! k) = Inr out \<and>
        (\<not> use_angle_clf self \<longrightarrow> outs' ! k = out) \<and>
        rotated_angle (outs' ! k) = rotated_angle out \<and>
        map box (detected_texts (outs' ! k)) = map box (detected_texts out) \<and>
        map score (detected_texts (outs' ! k)) = map score (detected_texts out)"
      if k: "k < length imgs" for k
    proof -
      from nth k have "per_image args k (imgs ! k) = Inr (outs ! k)" by simp
      moreover from noclf have "\<not> use_angle_clf self \<longrightarrow> outs' ! k = outs ! k" by simp
      moreover from fr k len have "rotated_angle (outs' ! k) = rotated_angle (outs ! k) \<and>
          map box (detected_texts (outs' ! k)) = map box (detected_texts (outs ! k)) \<and>
          map score (detected_texts (outs' ! k)) = map score (detected_texts (outs ! k))"
        by simp
      ultimately show ?thesis by blast
    qed
    with r len len' show ?thesis by simp
  qed
  from first facade pipeline show ?thesis by blast
qed

theorem detect_single_list_symmetry_witness:
  "isinstance (PStr ''a.jpg'') [T_str, T_Path, T_Image, T_ndarray] \<and>
   snd (detect example_self_clf (PStr ''a.jpg'') default_detect_args []) = Inr (Single example_out_rectified) \<and>
   snd (detect example_self_clf (PList [PStr ''a.jpg'']) default_detect_args []) = Inr (Many [example_out_rectified]) \<and>
   det_model example_self_clf (PList [PStr ''a.jpg'', PPath ''b.png'']) default_detect_args
     = Inr [example_out, example_out] \<and>
   (\<exists>outs'. snd (detect example_self_clf (PList [PStr ''a.jpg'', PPath ''b.png'']) default_detect_args [])
        = Inr (Many outs') \<and> length outs' = 2 \<and>
      map box (detected_texts (outs' ! 1)) = map box (detected_texts example_out)) \<and>
   det_model example_self_batch = pipeline_detect example_per_image \<and>
   (\<exists>outs'. snd (detect example_self_batch (PList [PStr ''a.jpg'', PNdarray crop_b]) default_detect_args [])
        = Inr (Many outs') \<and> length outs' = 2 \<and>
      (\<exists>out. example_per_image default_detect_args 1 (PNdarray crop_b) = Inr out \<and>
         map box (detected_texts (outs' ! 1)) = map box (detected_texts out)) \<and>
      map box (detected_texts (outs' ! 1)) = [AxisAligned (Fin 0) (Fin 0) (Fin 1) (Fin 2)])"
proof -
  let ?imgs = "[PStr ''a.jpg'', PNdarray crop_b]"
  let ?o1 = "example_out_rectified"
  let ?o2 = "\<lparr>rotated_angle = Fin 0,
      detected_texts = [\<lparr>box = AxisAligned (Fin 0) (Fin 0) (Fin 1) (Fin 2),
                         score = Fin (9 / 10), cropped_img = rot180 crop_b\<rparr>]\<rparr>"
  have single: "isinstance (PStr ''a.jpg'') [T_str, T_Path, T_Image, T_ndarray]"
    by (simp add: isinstance_def)
  have lst: "snd (detect example_self_clf (PList [PStr ''a.jpg'']) default_detect_args [])
      = Inr (Many [example_out_rectified])"
    by (simp add: example_defs)
  have det: "det_model example_self_clf (PList [PStr ''a.jpg'', PPath ''b.png'']) default_detect_args
      = Inr [example_out, example_out]"
    by (simp add: example_defs)
  have ret: "snd (detect example_self_clf (PList [PStr ''a.jpg'', PPath ''b.png'']) default_detect_args [])
      = Inr (Many [example_out_rectified, example_out_rectified])"
    by (simp add: example_defs)
  have pd: "det_model example_self_batch = pipeline_detect example_per_image"
    by (simp add: example_self_batch_def)
  have pret: "snd (detect example_self_batch (PList ?imgs) default_detect_args []) = Inr (Many [?o1, ?o2])"
    by (simp add: batch_example_defs)
  note inst = detect_single_list_symmetry [of "PStr ''a.jpg''" example_self_clf default_detect_args "[]"
      "[PStr ''a.jpg'', PPath ''b.png'']"]
  note pinst = detect_single_list_symmetry [of "PStr ''a.jpg''" example_self_batch default_detect_args "[]"
      ?imgs example_per_image]
  from inst [THEN conjunct1, rule_format, OF single] lst
  have a: "snd (detect example_self_clf (PStr ''a.jpg'') default_detect_args [])
      = Inr (Single example_out_rectified)"
    by (simp add: getitem0_def)
  from inst [THEN conjunct2, THEN conjunct1, rule_format, OF conjI [OF det ret]]
  obtain outs0 where eq0: "Many [example_out_rectified, example_out_rectified] = Many outs0"
    and len0: "length outs0 = length [example_out, example_out]"
    and nth0: "\<forall>k<length [example_out, example_out].
            rotated_angle (outs0 ! k) = rotated_angle ([example_out, example_out] ! k) \<and>
            map box (detected_texts (outs0 ! k)) = map box (detected_texts ([example_out, example_out] ! k)) \<and>
            map score (detected_texts (outs0 ! k)) = map score (detected_texts ([example_out, example_out] ! k))"
    by blast
  have "(1::nat) < length [example_out, example_out]" by simp
  from nth0 [rule_format, OF this]
  have "map box (detected_texts (outs0 ! 1)) = map box (detected_texts example_out)"
    by simp
  with eq0 len0
  have b: "\<exists>outs'. Many [example_out_rectified, example_out_rectified] = Many outs' \<and> length outs' = 2 \<and>
      map box (detected_texts (outs' ! 1)) = map box (detected_texts example_out)"
    by simp
  from pinst [THEN conjunct2, THEN conjunct2, rule_format, OF conjI [OF pd pret]]
  obtain outs' where eq: "Many [?o1, ?o2] = Many outs'"
    and nth: "\<forall>k<length ?imgs. \<exists>out.
            example_per_image default_detect_args k (?imgs ! k) = Inr out \<and>
            (\<not> use_angle_clf example_self_batch \<longrightarrow> outs' ! k = out) \<and>
            rotated_angle (outs' ! k) = rotated_angle out \<and>
            map box (detected_texts (outs' ! k)) = map box (detected_texts out) \<and>
            map score (detected_texts (outs' ! k)) = map score (detected_texts out)"
    by blast
  have "(1::nat) < length ?imgs" by simp
  from nth [rule_format, OF this]
  have "\<exists>out. example_per_image default_detect_args 1 (?imgs ! 1) = Inr out \<and>
      map box (detected_texts (outs' ! 1)) = map box (detected_texts out)"
    by blast
  with eq have c: "\<exists>out. example_per_image default_detect_args 1 (PNdarray crop_b) = Inr out \<and>
      map box (detected_texts ([?o1, ?o2] ! 1)) = map box (detected_texts out)"
    by simp
  from a b c single lst det ret pd pret show ?thesis by simp
qed

section \<open>Input validation\<close>

text \<open>
  C3, as stated, at a list whose element is an \<open>int\<close> and at a tuple of paths: neither is
  a path, an image object, a raw array or a list of these, and neither is rejected. The
  detection model is called with the value; what comes back is its exception or its results.
\<close>

theorem unsupported_input_counterexample:
  "detect example_self (PList [PInt 1]) default_detect_args []
     = ([Call_det_model_detect (PList [PInt 1]) default_detect_args], Inl (Raised ''cannot read image'')) \<and>
   detect example_self (PTuple [PStr ''a.jpg'']) default_detect_args []
     = ([Call_det_model_detect (PTuple [PStr ''a.jpg'']) default_detect_args], Inr (Many [example_out]))"
  by (simp add: example_defs)

text \<open>
  C3, amended. An \<open>img_list\<close> whose type is none of \<open>list\<close>, \<open>tuple\<close>, \<open>str\<close>, \<open>Path\<close>,
  \<open>Image.Image\<close>, \<open>np.ndarray\<close> makes \<open>detect\<close> raise \<open>TypeError\<close> naming that type, with no
  call to the detection model or the angle classifier made.
\<close>

theorem unsupported_input_type:
  assumes "\<not> isinstance img_list [T_list, T_tuple, T_str, T_Path, T_Image, T_ndarray]"
  shows "detect self img_list args kwargs = ([], Inl (TypeError (type_of img_list)))"
  using assms by (simp add: detect_def normalize_input_def isinstance_def)

theorem unsupported_input_type_witness:
  "\<not> isinstance (PDict [(''path'', PStr ''a.jpg'')]) [T_list, T_tuple, T_str, T_Path, T_Image, T_ndarray] \<and>
   detect example_self_clf (PDict [(''path'', PStr ''a.jpg'')]) default_detect_args [] = ([], Inl (TypeError T_dict))"
proof -
  have h: "\<not> isinstance (PDict [(''path'', PStr ''a.jpg'')]) [T_list, T_tuple, T_str, T_Path, T_Image, T_ndarray]"
    by (simp add: isinstance_def)
  from unsupported_input_type [OF h, of example_self_clf default_detect_args "[]"] h
  show ?thesis by simp
qed

text \<open>
  C9. A list or a tuple passes the type check whatever its elements are: \<open>img_list\<close> stays
  as it is, the first call made is \<open>self.det_model.detect\<close> on that very value, and an exception
  of the detection model is the exception of \<open>detect\<close>.
\<close>

theorem sequence_elements_not_inspected:
  assumes "isinstance img_list [T_list, T_tuple]"
  shows "normalize_input img_list = Inr (img_list, False) \<and>
         (\<exists>evs. fst (detect self img_list args kwargs) = Call_det_model_detect img_list args # evs) \<and>
         (\<forall>e. det_model self img_list args = Inl e \<longrightarrow>
            snd (detect self img_list args kwargs) = Inl e)"
proof -
  from assms have n: "normalize_input img_list = Inr (img_list, False)"
    by (simp add: normalize_input_def)
  from detect_events_nonempty [OF n]
  have "\<exists>evs. fst (detect self img_list args kwargs) = Call_det_model_detect img_list args # evs" .
  moreover have "\<forall>e. det_model self img_list args = Inl e \<longrightarrow>
      snd (detect self img_list args kwargs) = Inl e"
    by (simp add: detect_def n)
  ultimately show ?thesis using n by simp
qed

theorem sequence_elements_not_inspected_witness:
  "isinstance (PList [PInt 1, PNone]) [T_list, T_tuple] \<and>
   normalize_input (PList [PInt 1, PNone]) = Inr (PList [PInt 1, PNone], False) \<and>
   det_model example_self (PList [PInt 1, PNone]) default_detect_args = Inl (Raised ''cannot read image'') \<and>
   fst (detect example_self (PList [PInt 1, PNone]) default_detect_args [])
     = [Call_det_model_detect (PList [PInt 1, PNone]) default_detect_args] \<and>
   snd (detect example_self (PList [PInt 1, PNone]) default_detect_args []) = Inl (Raised ''cannot read image'')"
proof -
  have h: "isinstance (PList [PInt 1, PNone]) [T_list, T_tuple]"
    by (simp add: isinstance_def)
  have d: "det_model example_self (PList [PInt 1, PNone]) default_detect_args = Inl (Raised ''cannot read image'')"
    by (simp add: example_self_def example_det_def isinstance_def)
  have f: "fst (detect example_self (PList [PInt 1, PNone]) default_detect_args [])
     = [Call_det_model_detect (PList [PInt 1, PNone]) default_detect_args]"
    by (simp add: example_defs)
  from sequence_elements_not_inspected [OF h, of example_self default_detect_args "[]"] d
  have "normalize_input (PList [PInt 1, PNone]) = Inr (PList [PInt 1, PNone], False)"
    and "snd (detect example_self (PList [PInt 1, PNone]) default_detect_args []) = Inl (Raised ''cannot read image'')"
    by simp_all
  with h d f show ?thesis by simp
qed

text \<open>
  C10. A tuple takes the branch of a list: it is passed on unwrapped, the value returned for it
  is never a single result, and it is the value returned for the list of the same images
  whenever the detection model answers both alike. What is returned for a tuple is the list
  of the detection model's results, all of them in their order: the list itself when no angle
  classifier is used, and otherwise each result with the crops of its entries replaced by the
  classifier's answer for that result. A single result is returned only for an \<open>img_list\<close>
  that is a \<open>str\<close>, \<open>Path\<close>, \<open>Image.Image\<close> or \<open>np.ndarray\<close>.
\<close>

theorem tuple_treated_like_list:
  "normalize_input (PTuple imgs) = Inr (PTuple imgs, False) \<and>
   normalize_input (PList imgs) = Inr (PList imgs, False) \<and>
   (\<forall>out0. snd (detect self (PTuple imgs) args kwargs) \<noteq> Inr (Single out0)) \<and>
   (det_model self (PTuple imgs) args = det_model self (PList imgs) args \<longrightarrow>
      snd (detect self (PTuple imgs) args kwargs) = snd (detect self (PList imgs) args kwargs)) \<and>
   (\<forall>out0. snd (detect self img_list args kwargs) = Inr (Single out0) \<longrightarrow>
      isinstance img_list [T_str, T_Path, T_Image, T_ndarray]) \<and>
   (\<not> use_angle_clf self \<longrightarrow>
      snd (detect self (PTuple imgs) args kwargs) =
        (case det_model self (PTuple imgs) args of Inl e \<Rightarrow> Inl e | Inr outs \<Rightarrow> Inr (Many outs))) \<and>
   (\<forall>outs r. det_model self (PTuple imgs) args = Inr outs \<and>
       snd (detect self (PTuple imgs) args kwargs) = Inr r \<longrightarrow>
      (\<exists>outs'. r = Many outs' \<and> length outs' = length outs \<and>
         (\<not> use_angle_clf self \<longrightarrow> outs' = outs) \<and>
         (use_angle_clf self \<longrightarrow>
            (\<forall>k<length outs. \<exists>clf crops m.
               angle_clf self = Some clf \<and>
               clf (map cropped_img (detected_texts (outs ! k))) = Inr (crops, m) \<and>
               outs' ! k = (outs ! k)\<lparr>detected_texts := write_back (detected_texts (outs ! k)) crops\<rparr>))))"
proof -
  have nt: "normalize_input (PTuple imgs) = Inr (PTuple imgs, False)"
    and nl: "normalize_input (PList imgs) = Inr (PList imgs, False)"
    by (simp_all add: normalize_input_def isinstance_def)
  have many: "snd (detect self v args kwargs) \<noteq> Inr (Single out0)"
    if "normalize_input v = Inr (v', False)" for v v' out0
    using that by (auto simp: detect_def unwrap_def split: sum.splits prod.splits)
  have a: "\<forall>out0. snd (detect self (PTuple imgs) args kwargs) \<noteq> Inr (Single out0)"
    using many [OF nt] by simp
  have b: "det_model self (PTuple imgs) args = det_model self (PList imgs) args \<longrightarrow>
      snd (detect self (PTuple imgs) args kwargs) = snd (detect self (PList imgs) args kwargs)"
    by (auto simp: detect_def nt nl split: sum.splits prod.splits)
  have c: "\<forall>out0. snd (detect self img_list args kwargs) = Inr (Single out0) \<longrightarrow>
      isinstance img_list [T_str, T_Path, T_Image, T_ndarray]"
  proof (intro allI impI)
    fix out0
    assume s: "snd (detect self img_list args kwargs) = Inr (Single out0)"
    show "isinstance img_list [T_str, T_Path, T_Image, T_ndarray]"
    proof (cases "normalize_input img_list")
      case (Inl e)
      with s show ?thesis by (simp add: detect_def)
    next
      case (Inr p)
      obtain v' single where p: "p = (v', single)" by (cases p)
      with Inr many [of img_list v' out0] s have "single" by auto
      with Inr p normalize_input_cases [of img_list v' single] show ?thesis by simp
    qed
  qed
  have d: "\<not> use_angle_clf self \<longrightarrow>
      snd (detect self (PTuple imgs) args kwargs) =
        (case det_model self (PTuple imgs) args of Inl e \<Rightarrow> Inl e | Inr outs \<Rightarrow> Inr (Many outs))"
    by (simp add: detect_def nt unwrap_def split: sum.splits)
  have e: "\<forall>outs r. det_model self (PTuple imgs) args = Inr outs \<and>
       snd (detect self (PTuple imgs) args kwargs) = Inr r \<longrightarrow>
      (\<exists>outs'. r = Many outs' \<and> length outs' = length outs \<and>
         (\<not> use_angle_clf self \<longrightarrow> outs' = outs) \<and>
         (use_angle_clf self \<longrightarrow>
            (\<forall>k<length outs. \<exists>clf crops m.
               angle_clf self = Some clf \<and>
               clf (map cropped_img (detected_texts (outs ! k))) = Inr (crops, m) \<and>
               outs' ! k = (outs ! k)\<lparr>detected_texts := write_back (detected_texts (outs ! k)) crops\<rparr>)))"
  proof (intro allI impI, elim conjE)
    fix outs r
    assume "det_model self (PTuple imgs) args = Inr outs"
      and "snd (detect self (PTuple imgs) args kwargs) = Inr r"
    then show "\<exists>outs'. r = Many outs' \<and> length outs' = length outs \<and>
         (\<not> use_angle_clf self \<longrightarrow> outs' = outs) \<and>
         (use_angle_clf self \<longrightarrow>
            (\<forall>k<length outs. \<exists>clf crops m.
               angle_clf self = Some clf \<and>
               clf (map cropped_img (detected_texts (outs ! k))) = Inr (crops, m) \<and>
               outs' ! k = (outs ! k)\<lparr>detected_texts := write_back (detected_texts (outs ! k)) crops\<rparr>))"
      by (rule detect_sequence_result [OF nt])
  qed
  show ?thesis
    by (rule conjI nt nl a b c d e)+
qed

theorem tuple_treated_like_list_witness:
  "det_model example_self_clf (PTuple [PStr ''a.jpg'', PPath ''b.png'']) default_detect_args
     = Inr [example_out, example_out] \<and>
   det_model example_self_clf (PTuple [PStr ''a.jpg'', PPath ''b.png'']) default_detect_args
     = det_model example_self_clf (PList [PStr ''a.jpg'', PPath ''b.png'']) default_detect_args \<and>
   snd (detect example_self_clf (PList [PStr ''a.jpg'', PPath ''b.png'']) default_detect_args [])
     = Inr (Many [example_out_rectified, example_out_rectified]) \<and>
   snd (detect example_self_clf (PTuple [PStr ''a.jpg'', PPath ''b.png'']) default_detect_args [])
     = Inr (Many [example_out_rectified, example_out_rectified]) \<and>
   (\<exists>outs'. Many [example_out_rectified, example_out_rectified] = Many outs' \<and> length outs' = 2 \<and>
      (\<exists>crops m. example_clf (map cropped_img (detected_texts example_out)) = Inr (crops, m) \<and>
         outs' ! 1 = example_out\<lparr>detected_texts := write_back (detected_texts example_out) crops\<rparr>)) \<and>
   \<not> use_angle_clf example_self \<and>
   snd (detect example_self (PTuple [PStr ''a.jpg'', PPath ''b.png'']) default_detect_args [])
     = Inr (Many [example_out, example_out]) \<and>
   snd (detect example_self_clf (PStr ''a.jpg'') default_detect_args []) = Inr (Single example_out_rectified) \<and>
   isinstance (PStr ''a.jpg'') [T_str, T_Path, T_Image, T_ndarray]"
proof -
  let ?t = "PTuple [PStr ''a.jpg'', PPath ''b.png'']"
  have dt: "det_model example_self_clf ?t default_detect_args = Inr [example_out, example_out]"
    by (simp add: example_self_clf_def example_det_def isinstance_def)
  have d: "det_model example_self_clf ?t default_detect_args
     = det_model example_self_clf (PList [PStr ''a.jpg'', PPath ''b.png'']) default_detect_args"
    by (simp add: example_self_clf_def example_det_def)
  have l: "snd (detect example_self_clf (PList [PStr ''a.jpg'', PPath ''b.png'']) default_detect_args [])
      = Inr (Many [example_out_rectified, example_out_rectified])"
    by (simp add: example_defs)
  have s: "snd (detect example_self_clf (PStr ''a.jpg'') default_detect_args []) = Inr (Single example_out_rectified)"
    by (simp add: example_defs)
  have u: "use_angle_clf example_self_clf" and c: "angle_clf example_self_clf = Some example_clf"
    by (simp_all add: example_self_clf_def)
  have nu: "\<not> use_angle_clf example_self"
    and dn: "det_model example_self ?t default_detect_args = Inr [example_out, example_out]"
    by (simp_all add: example_self_def example_det_def isinstance_def)
  note inst = tuple_treated_like_list [of "[PStr ''a.jpg'', PPath ''b.png'']" example_self_clf
      default_detect_args "[]" "PStr ''a.jpg''"]
  note inst0 = tuple_treated_like_list [of "[PStr ''a.jpg'', PPath ''b.png'']" example_self
      default_detect_args "[]" "PStr ''a.jpg''"]
  from inst [THEN conjunct2, THEN conjunct2, THEN conjunct2, THEN conjunct1, rule_format, OF d] l
  have t: "snd (detect example_self_clf ?t default_detect_args [])
      = Inr (Many [example_out_rectified, example_out_rectified])"
    by simp
  from inst [THEN conjunct2, THEN conjunct2, THEN conjunct2, THEN conjunct2, THEN conjunct2,
      THEN conjunct2, rule_format, OF conjI [OF dt t]]
  obtain outs' where eq: "Many [example_out_rectified, example_out_rectified] = Many outs'"
    and len: "length outs' = length [example_out, example_out]"
    and nth: "use_angle_clf example_self_clf \<longrightarrow>
      (\<forall>k<length [example_out, example_out]. \<exists>clf crops m.
         angle_clf example_self_clf = Some clf \<and>
         clf (map cropped_img (detected_texts ([example_out, example_out] ! k))) = Inr (crops, m) \<and>
         outs' ! k = ([example_out, example_out] ! k)\<lparr>detected_texts :=
            write_back (detected_texts ([example_out, example_out] ! k)) crops\<rparr>)"
    by blast
  have "(1::nat) < length [example_out, example_out]" by simp
  from nth [rule_format, OF u this]
  have "\<exists>clf crops m.
         angle_clf example_self_clf = Some clf \<and>
         clf (map cropped_img (detected_texts ([example_out, example_out] ! 1))) = Inr (crops, m) \<and>
         outs' ! 1 = ([example_out, example_out] ! 1)\<lparr>detected_texts :=
            write_back (detected_texts ([example_out, example_out] ! 1)) crops\<rparr>" .
  with c have "\<exists>crops m. example_clf (map cropped_img (detected_texts example_out)) = Inr (crops, m) \<and>
         outs' ! 1 = example_out\<lparr>detected_texts := write_back (detected_texts example_out) crops\<rparr>"
    by simp
  with eq len
  have p: "\<exists>outs'. Many [example_out_rectified, example_out_rectified] = Many outs' \<and> length outs' = 2 \<and>
      (\<exists>crops m. example_clf (map cropped_img (detected_texts example_out)) = Inr (crops, m) \<and>
         outs' ! 1 = example_out\<lparr>detected_texts := write_back (detected_texts example_out) crops\<rparr>)"
    by simp
  from inst0 [THEN conjunct2, THEN conjunct2, THEN conjunct2, THEN conjunct2, THEN conjunct2,
      THEN conjunct1, rule_format, OF nu] dn
  have t0: "snd (detect example_self ?t default_detect_args []) = Inr (Many [example_out, example_out])"
    by simp
  from inst [THEN conjunct2, THEN conjunct2, THEN conjunct2, THEN conjunct2, THEN conjunct1,
      rule_format, OF s]
  have i: "isinstance (PStr ''a.jpg'') [T_str, T_Path, T_Image, T_ndarray]" .
  from dt d l t p nu t0 s i show ?thesis by simp
qed

text \<open>
  C8. The extra keyword arguments change neither the calls made to the detection model and
  the angle classifier nor the value returned or the exception raised.
\<close>

theorem detect_ignores_kwargs:
  "detect self img_list args kwargs = detect self img_list args kwargs'"
  by (simp add: detect_def)

section \<open>Orientation rectification\<close>

text \<open>
  C2, as stated, at a list of two images with two boxes each: the angle classifier is called
  twice, once per image with the two crops of that image, and never on the four crops together.
  For an empty list it is not called at all.
\<close>

theorem rectifier_single_batched_call_counterexample:
  "angle_clf_calls (fst (detect example_self_clf (PList [PStr ''a.jpg'', PStr ''b.jpg'']) default_detect_args []))
     = [[crop_a, crop_b], [crop_a, crop_b]] \<and>
   angle_clf_calls (fst (detect example_self_clf (PList [PStr ''a.jpg'', PStr ''b.jpg'']) default_detect_args []))
     \<noteq> [[crop_a, crop_b, crop_a, crop_b]] \<and>
   angle_clf_calls (fst (detect example_self_clf (PList []) default_detect_args [])) = []"
  by (simp add: example_defs)

text \<open>
  C2, amended. With \<open>use_angle_clf\<close> set and no call of the classifier raising, \<open>detect\<close> calls
  the detection model once and then the angle classifier once per image result, in the order
  of the results, each call on the crops of that image in the order of its boxes.
\<close>

theorem rectifier_called_once_per_image:
  assumes "use_angle_clf self" and "angle_clf self = Some clf"
    and "normalize_input img_list = Inr (img_list', single)"
    and "det_model self img_list' args = Inr outs"
    and "\<forall>out \<in> set outs. \<exists>crops m. clf (map cropped_img (detected_texts out)) = Inr (crops, m)"
  shows "fst (detect self img_list args kwargs) =
           Call_det_model_detect img_list' args #
           map (\<lambda>out. Call_angle_clf (map cropped_img (detected_texts out))) outs \<and>
         angle_clf_calls (fst (detect self img_list args kwargs)) =
           map (\<lambda>out. map cropped_img (detected_texts out)) outs"
proof -
  from rectify_outs_succeeds [OF assms(5)] obtain evs outs'
    where rc: "rectify_outs (Some clf) outs = (evs, Inr outs')" by blast
  from rectify_outs_Inr [OF rc]
  have evs: "evs = map (\<lambda>out. Call_angle_clf (map cropped_img (detected_texts out))) outs"
    by simp
  have calls: "angle_clf_calls (map (\<lambda>out. Call_angle_clf (map cropped_img (detected_texts out))) xs)
      = map (\<lambda>out. map cropped_img (detected_texts out)) xs" for xs
    by (induction xs) simp_all
  from assms(1-4) rc have "fst (detect self img_list args kwargs) = Call_det_model_detect img_list' args # evs"
    by (simp add: detect_def)
  with evs calls show ?thesis by simp
qed

theorem rectifier_called_once_per_image_witness:
  "use_angle_clf example_self_clf \<and> angle_clf example_self_clf = Some example_clf \<and>
   normalize_input (PTuple [PStr ''a.jpg'', PPath ''b.png'']) = Inr (PTuple [PStr ''a.jpg'', PPath ''b.png''], False) \<and>
   det_model example_self_clf (PTuple [PStr ''a.jpg'', PPath ''b.png'']) default_detect_args
     = Inr [example_out, example_out] \<and>
   angle_clf_calls (fst (detect example_self_clf (PTuple [PStr ''a.jpg'', PPath ''b.png'']) default_detect_args []))
     = [[crop_a, crop_b], [crop_a, crop_b]]"
proof -
  have h1: "use_angle_clf example_self_clf" and h2: "angle_clf example_self_clf = Some example_clf"
    by (simp_all add: example_self_clf_def)
  have h3: "normalize_input (PTuple [PStr ''a.jpg'', PPath ''b.png''])
      = Inr (PTuple [PStr ''a.jpg'', PPath ''b.png''], False)"
    by (simp add: normalize_input_def isinstance_def)
  have h4: "det_model example_self_clf (PTuple [PStr ''a.jpg'', PPath ''b.png'']) default_detect_args
     = Inr [example_out, example_out]"
    by (simp add: example_self_clf_def example_det_def isinstance_def)
  have h5: "\<forall>out \<in> set [example_out, example_out].
      \<exists>crops m. example_clf (map cropped_img (detected_texts out)) = Inr (crops, m)"
    by (simp add: example_clf_def)
  from rectifier_called_once_per_image [OF h1 h2 h3 h4 h5, of "[]"]
  have "angle_clf_calls (fst (detect example_self_clf (PTuple [PStr ''a.jpg'', PPath ''b.png'']) default_detect_args []))
     = [[crop_a, crop_b], [crop_a, crop_b]]"
    by (simp add: example_out_def)
  with h1 h2 h3 h4 show ?thesis by simp
qed

text \<open>
  C4. With \<open>use_angle_clf\<close> set and a classifier that answers every call with as many crops
  as it was given, \<open>detect\<close> returns the results of the detection model, as many as there were,
  each with as many entries as before, and entry \<open>i\<close> of image \<open>k\<close> is the entry the detection
  model gave there with its crop replaced by crop \<open>i\<close> of the classifier's answer for image \<open>k\<close>.
\<close>

theorem rectified_crops_written_back_in_place:
  assumes "use_angle_clf self" and "angle_clf self = Some clf"
    and "normalize_input img_list = Inr (img_list', single)"
    and "det_model self img_list' args = Inr outs"
    and "\<forall>out \<in> set outs. \<exists>crops m. clf (map cropped_img (detected_texts out)) = Inr (crops, m) \<and>
           length crops = length (detected_texts out)"
  shows "\<exists>outs'. snd (detect self img_list args kwargs) = unwrap single outs' \<and>
           length outs' = length outs \<and>
           (\<forall>k<length outs. \<exists>crops m.
              clf (map cropped_img (detected_texts (outs ! k))) = Inr (crops, m) \<and>
              length (detected_texts (outs' ! k)) = length (detected_texts (outs ! k)) \<and>
              map cropped_img (detected_texts (outs' ! k)) = crops \<and>
              (\<forall>i<length (detected_texts (outs ! k)).
                 detected_texts (outs' ! k) ! i = (detected_texts (outs ! k) ! i)\<lparr>cropped_img := crops ! i\<rparr>))"
proof -
  from assms(5) have "\<forall>out \<in> set outs. \<exists>crops m. clf (map cropped_img (detected_texts out)) = Inr (crops, m)"
    by blast
  from rectify_outs_succeeds [OF this] obtain evs outs'
    where rc: "rectify_outs (Some clf) outs = (evs, Inr outs')" by blast
  from rectify_outs_Inr [OF rc]
  have rel: "list_all2 (\<lambda>out out'. \<exists>crops m. clf (map cropped_img (detected_texts out)) = Inr (crops, m) \<and>
        out' = out\<lparr>detected_texts := write_back (detected_texts out) crops\<rparr>) outs outs'"
    by simp
  then have len: "length outs' = length outs"
    by (simp add: list_all2_lengthD)
  from assms(1-4) rc have ret: "snd (detect self img_list args kwargs) = unwrap single outs'"
    by (simp add: detect_def)
  have "\<exists>crops m.
      clf (map cropped_img (detected_texts (outs ! k))) = Inr (crops, m) \<and>
      length (detected_texts (outs' ! k)) = length (detected_texts (outs ! k)) \<and>
      map cropped_img (detected_texts (outs' ! k)) = crops \<and>
      (\<forall>i<length (detected_texts (outs ! k)).
         detected_texts (outs' ! k) ! i = (detected_texts (outs ! k) ! i)\<lparr>cropped_img := crops ! i\<rparr>)"
    if k: "k < length outs" for k
  proof -
    from list_all2_nthD [OF rel k] obtain crops m
      where c: "clf (map cropped_img (detected_texts (outs ! k))) = Inr (crops, m)"
        and o: "outs' ! k = (outs ! k)\<lparr>detected_texts := write_back (detected_texts (outs ! k)) crops\<rparr>"
      by blast
    from k have "outs ! k \<in> set outs" by simp
    with assms(5) c have l: "length crops = length (detected_texts (outs ! k))"
      by fastforce
    from c o l show ?thesis
      by (simp add: length_write_back map_cropped_img_write_back write_back_nth)
  qed
  with ret len show ?thesis by blast
qed

theorem rectified_crops_written_back_in_place_witness:
  "use_angle_clf example_self_clf \<and> angle_clf example_self_clf = Some example_clf \<and>
   normalize_input (PList [PStr ''a.jpg'', PPath ''b.png'']) = Inr (PList [PStr ''a.jpg'', PPath ''b.png''], False) \<and>
   det_model example_self_clf (PList [PStr ''a.jpg'', PPath ''b.png'']) default_detect_args
     = Inr [example_out, example_out] \<and>
   example_clf (map cropped_img (detected_texts example_out)) = Inr ([rot180 crop_a, rot180 crop_b], PList []) \<and>
   (\<exists>outs'. snd (detect example_self_clf (PList [PStr ''a.jpg'', PPath ''b.png'']) default_detect_args [])
       = Inr (Many outs') \<and> length outs' = 2 \<and>
      map cropped_img (detected_texts (outs' ! 1)) = [rot180 crop_a, rot180 crop_b])"
proof -
  have h1: "use_angle_clf example_self_clf" and h2: "angle_clf example_self_clf = Some example_clf"
    by (simp_all add: example_self_clf_def)
  have h3: "normalize_input (PList [PStr ''a.jpg'', PPath ''b.png''])
      = Inr (PList [PStr ''a.jpg'', PPath ''b.png''], False)"
    by (simp add: normalize_input_def isinstance_def)
  have h4: "det_model example_self_clf (PList [PStr ''a.jpg'', PPath ''b.png'']) default_detect_args
     = Inr [example_out, example_out]"
    by (simp add: example_self_clf_def example_det_def isinstance_def)
  have c: "example_clf (map cropped_img (detected_texts example_out)) = Inr ([rot180 crop_a, rot180 crop_b], PList [])"
    by (simp add: example_clf_def example_out_def)
  have h5: "\<forall>out \<in> set [example_out, example_out].
      \<exists>crops m. example_clf (map cropped_img (detected_texts out)) = Inr (crops, m) \<and>
        length crops = length (detected_texts out)"
    by (simp add: example_clf_def)
  from rectified_crops_written_back_in_place [OF h1 h2 h3 h4 h5, of "[]"] c
  have "\<exists>outs'. snd (detect example_self_clf (PList [PStr ''a.jpg'', PPath ''b.png'']) default_detect_args [])
       = Inr (Many outs') \<and> length outs' = 2 \<and>
      map cropped_img (detected_texts (outs' ! 1)) = [rot180 crop_a, rot180 crop_b]"
    by (fastforce simp: unwrap_def)
  with h1 h2 h3 h4 c show ?thesis by simp
qed

text \<open>
  C5. With \<open>use_angle_clf\<close> set, whatever the classifier answers, a value returned by \<open>detect\<close>
  has the results of the detection model in the same number and order, each with the same
  \<open>rotated_angle\<close>, the same number of entries, and in every entry the same \<open>box\<close> and \<open>score\<close>.
\<close>

theorem rectification_changes_only_crops:
  assumes "use_angle_clf self"
    and "normalize_input img_list = Inr (img_list', single)"
    and "det_model self img_list' args = Inr outs"
    and "snd (detect self img_list args kwargs) = Inr r"
  shows "\<exists>outs'. unwrap single outs' = Inr r \<and> length outs' = length outs \<and>
           (\<forall>k<length outs.
              rotated_angle (outs' ! k) = rotated_angle (outs ! k) \<and>
              length (detected_texts (outs' ! k)) = length (detected_texts (outs ! k)) \<and>
              (\<forall>i<length (detected_texts (outs ! k)).
                 box (detected_texts (outs' ! k) ! i) = box (detected_texts (outs ! k) ! i) \<and>
                 score (detected_texts (outs' ! k) ! i) = score (detected_texts (outs ! k) ! i)))"
proof -
  obtain evs res where rc: "rectify_outs (angle_clf self) outs = (evs, res)"
    by (cases "rectify_outs (angle_clf self) outs") auto
  with assms obtain outs' where res: "res = Inr outs'" and r: "unwrap single outs' = Inr r"
    by (cases res) (auto simp: detect_def)
  from rectify_outs_frame [OF rc [unfolded res]]
  have fr: "list_all2 (\<lambda>out out'. rotated_angle out' = rotated_angle out \<and>
      map box (detected_texts out') = map box (detected_texts out) \<and>
      map score (detected_texts out') = map score (detected_texts out)) outs outs'" .
  then have len: "length outs' = length outs"
    by (simp add: list_all2_lengthD)
  have "rotated_angle (outs' ! k) = rotated_angle (outs ! k) \<and>
      length (detected_texts (outs' ! k)) = length (detected_texts (outs ! k)) \<and>
      (\<forall>i<length (detected_texts (outs ! k)).
         box (detected_texts (outs' ! k) ! i) = box (detected_texts (outs ! k) ! i) \<and>
         score (detected_texts (outs' ! k) ! i) = score (detected_texts (outs ! k) ! i))"
    if k: "k < length outs" for k
  proof -
    from list_all2_nthD [OF fr k]
    have a: "rotated_angle (outs' ! k) = rotated_angle (outs ! k)"
      and b: "map box (detected_texts (outs' ! k)) = map box (detected_texts (outs ! k))"
      and s: "map score (detected_texts (outs' ! k)) = map score (detected_texts (outs ! k))"
      by simp_all
    from b have l: "length (detected_texts (outs' ! k)) = length (detected_texts (outs ! k))"
      by (rule map_eq_imp_length_eq)
    have "box (detected_texts (outs' ! k) ! i) = box (detected_texts (outs ! k) ! i) \<and>
        score (detected_texts (outs' ! k) ! i) = score (detected_texts (outs ! k) ! i)"
      if i: "i < length (detected_texts (outs ! k))" for i
    proof -
      from i l have "map box (detected_texts (outs' ! k)) ! i = box (detected_texts (outs' ! k) ! i)"
        and "map box (detected_texts (outs ! k)) ! i = box (detected_texts (outs ! k) ! i)"
        and "map score (detected_texts (outs' ! k)) ! i = score (detected_texts (outs' ! k) ! i)"
        and "map score (detected_texts (outs ! k)) ! i = score (detected_texts (outs ! k) ! i)"
        by simp_all
      with b s show ?thesis by simp
    qed
    with a l show ?thesis by blast
  qed
  with r len show ?thesis by blast
qed

theorem rectification_changes_only_crops_witness:
  "use_angle_clf example_self_clf \<and>
   normalize_input (PStr ''a.jpg'') = Inr (PList [PStr ''a.jpg''], True) \<and>
   det_model example_self_clf (PList [PStr ''a.jpg'']) default_detect_args = Inr [example_out] \<and>
   snd (detect example_self_clf (PStr ''a.jpg'') default_detect_args []) = Inr (Single example_out_rectified) \<and>
   rotated_angle example_out_rectified = rotated_angle example_out \<and>
   map box (detected_texts example_out_rectified) = map box (detected_texts example_out) \<and>
   (\<exists>outs'. unwrap True outs' = Inr (Single example_out_rectified) \<and> length outs' = 1 \<and>
      score (detected_texts (outs' ! 0) ! 1) = Fin (1 / 2))"
proof -
  have h1: "use_angle_clf example_self_clf"
    by (simp add: example_self_clf_def)
  have h2: "normalize_input (PStr ''a.jpg'') = Inr (PList [PStr ''a.jpg''], True)"
    by (simp add: normalize_input_def isinstance_def)
  have h3: "det_model example_self_clf (PList [PStr ''a.jpg'']) default_detect_args = Inr [example_out]"
    by (simp add: example_self_clf_def example_det_def isinstance_def)
  have h4: "snd (detect example_self_clf (PStr ''a.jpg'') default_detect_args []) = Inr (Single example_out_rectified)"
    by (simp add: example_defs)
  from rectification_changes_only_crops [OF h1 h2 h3 h4]
  have "\<exists>outs'. unwrap True outs' = Inr (Single example_out_rectified) \<and> length outs' = 1 \<and>
      score (detected_texts (outs' ! 0) ! 1) = Fin (1 / 2)"
    by (fastforce simp: example_out_def)
  moreover have "rotated_angle example_out_rectified = rotated_angle example_out"
    and "map box (detected_texts example_out_rectified) = map box (detected_texts example_out)"
    by (simp_all add: example_out_def example_out_rectified_def)
  ultimately show ?thesis using h1 h2 h3 h4 by simp
qed

section \<open>Construction\<close>

text \<open>
  C6. When \<open>get_space\<close> answers neither \<open>CNSTD_SPACE\<close> nor \<open>PP_SPACE\<close> for the model name and
  backend, \<open>__init__\<close> raises \<open>NotImplementedError\<close> naming the pair, with none of \<open>Detector\<close>,
  \<open>PPDetector\<close>, \<open>AngleClassifier\<close> called and no object made.
\<close>

theorem init_unknown_space:
  assumes "get_space env (model_name kw) (model_backend kw) \<noteq> CNSTD_SPACE env"
    and "get_space env (model_name kw) (model_backend kw) \<noteq> PP_SPACE env"
  shows "init env kw use_angle_clf' angle_clf_configs kwargs =
           ([], Inl (NotImplementedError (model_name kw, model_backend kw)))"
  using assms by (simp add: init_def)

theorem init_unknown_space_witness:
  "get_space example_env (model_name (example_kw\<lparr>model_backend := ''onnx''\<rparr>))
      (model_backend (example_kw\<lparr>model_backend := ''onnx''\<rparr>)) = PNone \<and>
   CNSTD_SPACE example_env = PStr ''__cnstd__'' \<and> PP_SPACE example_env = PStr ''__paddleocr__'' \<and>
   init example_env (example_kw\<lparr>model_backend := ''onnx''\<rparr>) True None []
     = ([], Inl (NotImplementedError (''db_shufflenet_v2_small'', ''onnx'')))"
proof -
  have g: "get_space example_env (model_name (example_kw\<lparr>model_backend := ''onnx''\<rparr>))
      (model_backend (example_kw\<lparr>model_backend := ''onnx''\<rparr>)) = PNone"
    by (simp add: example_env_def example_kw_def)
  have c: "CNSTD_SPACE example_env = PStr ''__cnstd__''" and p: "PP_SPACE example_env = PStr ''__paddleocr__''"
    by (simp_all add: example_env_def)
  have h1: "get_space example_env (model_name (example_kw\<lparr>model_backend := ''onnx''\<rparr>))
      (model_backend (example_kw\<lparr>model_backend := ''onnx''\<rparr>)) \<noteq> CNSTD_SPACE example_env"
    and h2: "get_space example_env (model_name (example_kw\<lparr>model_backend := ''onnx''\<rparr>))
      (model_backend (example_kw\<lparr>model_backend := ''onnx''\<rparr>)) \<noteq> PP_SPACE example_env"
    by (simp_all add: example_env_def example_kw_def)
  from init_unknown_space [OF h1 h2, of True None "[]"]
  have "init example_env (example_kw\<lparr>model_backend := ''onnx''\<rparr>) True None []
     = ([], Inl (NotImplementedError (''db_shufflenet_v2_small'', ''onnx'')))"
    by (simp add: example_kw_def)
  with g c p show ?thesis by simp
qed

section \<open>Size and score filter\<close>










end
